theory Spec2Isabelle
  imports Main
begin

section \<open>Strings\<close>

text \<open>
  JavaScript strings are modelled as \<^typ>\<open>string\<close>. The three string operations the
  modelled code uses are \<^verbatim>\<open>Array.prototype.join\<close>, the conversion of a number to its
  decimal text inside a template literal, and \<^verbatim>\<open>String.prototype.toLowerCase\<close>.
\<close>

fun join :: "string \<Rightarrow> string list \<Rightarrow> string" where
  "join sep [] = []"
| "join sep [x] = x"
| "join sep (x # y # ys) = x @ sep @ join sep (y # ys)"

definition digit_char :: "nat \<Rightarrow> char" where
  "digit_char d = char_of (48 + d)"

function string_of_nat :: "nat \<Rightarrow> string" where
  "string_of_nat n =
     (if n < 10 then [digit_char n] else string_of_nat (n div 10) @ [digit_char (n mod 10)])"
  by pat_completeness auto
termination
  by (relation "measure (\<lambda>n. n)") auto

declare string_of_nat.simps [simp del]

text \<open>
  \<^verbatim>\<open>toLowerCase\<close> on the ASCII range: the letters \<^verbatim>\<open>A\<close> to \<^verbatim>\<open>Z\<close> move to
  \<^verbatim>\<open>a\<close> to \<^verbatim>\<open>z\<close>, every other character stays.
\<close>

definition lower_char :: "char \<Rightarrow> char" where
  "lower_char c =
     (if 65 \<le> (of_char c :: nat) \<and> (of_char c :: nat) \<le> 90
      then char_of ((of_char c :: nat) + 32) else c)"

definition toLowerCase :: "string \<Rightarrow> string" where
  "toLowerCase s = map lower_char s"

section \<open>Request validation middleware (src/middleware/validation.enhanced.ts)\<close>

subsection \<open>The schema library as seen by the middleware\<close>

text \<open>
  The middleware calls \<^verbatim>\<open>schema.safeParse(value)\<close> and reads \<^verbatim>\<open>success\<close>,
  \<^verbatim>\<open>data\<close> and \<^verbatim>\<open>error.errors\<close> of the result. Each issue has a \<^verbatim>\<open>path\<close>
  (an array of object keys and array indices) and a \<^verbatim>\<open>message\<close>. A schema is a
  parameter of the middleware: it is modelled as the function its \<^verbatim>\<open>safeParse\<close>
  computes, which reports a failure in its result and does not throw.
\<close>

datatype path_elem = Key string | Index nat

fun path_elem_text :: "path_elem \<Rightarrow> string" where
  "path_elem_text (Key k) = k"
| "path_elem_text (Index i) = string_of_nat i"

record zod_issue =
  path :: "path_elem list"
  message :: string

datatype 'v safe_parse = ParseSuccess 'v | ParseError "zod_issue list"

type_synonym 'v zod_schema = "'v \<Rightarrow> 'v safe_parse"

text \<open>\<^verbatim>\<open>interface ValidationSchemas { body?; params?; query? }\<close>\<close>

record 'v ValidationSchemas =
  body :: "'v zod_schema option"
  params :: "'v zod_schema option"
  query :: "'v zod_schema option"

subsection \<open>Request, response and the middleware\<close>

text \<open>
  The three parts of the request the middleware reads and writes, as values of one type
  \<open>'v\<close> (JSON values in the examples below). Whatever else the request
  carries (headers, the user a previous middleware attached, \<open>\<dots>\<close>) is the extension
  \<open>'z\<close> of the record.
\<close>

record 'v request =
  body :: 'v
  params :: 'v
  query :: 'v

record error_entry =
  field :: string
  message :: string

record error_body =
  success :: bool
  message :: string
  errors :: "error_entry list"

text \<open>
  What one run of the middleware does to its three arguments: the request as it leaves the
  middleware, every \<^verbatim>\<open>res.status(code).json(body)\<close> that was sent, in order, and how
  often \<^verbatim>\<open>next()\<close> was called.
\<close>

record ('v, 'z) outcome =
  req :: "('v, 'z) request_scheme"
  sent :: "(nat \<times> error_body) list"
  next_calls :: nat

definition validateRequestEnhanced ::
    "'v ValidationSchemas \<Rightarrow> ('v, 'z) request_scheme \<Rightarrow> ('v, 'z) outcome" where
  "validateRequestEnhanced schemas req0 =
     (let errors0 = [];
          (errors1, req1) =
            (case ValidationSchemas.body schemas of
               None \<Rightarrow> (errors0, req0)
             | Some schema \<Rightarrow>
                 (case schema (request.body req0) of
                    ParseError issues \<Rightarrow>
                      (errors0 @ map (\<lambda>err. \<lparr>field = ''body.'' @ join ''.'' (map path_elem_text (zod_issue.path err)),
                                            error_entry.message = zod_issue.message err\<rparr>) issues,
                       req0)
                  | ParseSuccess d \<Rightarrow> (errors0, req0\<lparr>request.body := d\<rparr>)));
          (errors2, req2) =
            (case ValidationSchemas.params schemas of
               None \<Rightarrow> (errors1, req1)
             | Some schema \<Rightarrow>
                 (case schema (request.params req1) of
                    ParseError issues \<Rightarrow>
                      (errors1 @ map (\<lambda>err. \<lparr>field = ''params.'' @ join ''.'' (map path_elem_text (zod_issue.path err)),
                                            error_entry.message = zod_issue.message err\<rparr>) issues,
                       req1)
                  | ParseSuccess d \<Rightarrow> (errors1, req1\<lparr>request.params := d\<rparr>)));
          (errors3, req3) =
            (case ValidationSchemas.query schemas of
               None \<Rightarrow> (errors2, req2)
             | Some schema \<Rightarrow>
                 (case schema (request.query req2) of
                    ParseError issues \<Rightarrow>
                      (errors2 @ map (\<lambda>err. \<lparr>field = ''query.'' @ join ''.'' (map path_elem_text (zod_issue.path err)),
                                            error_entry.message = zod_issue.message err\<rparr>) issues,
                       req2)
                  | ParseSuccess d \<Rightarrow> (errors2, req2\<lparr>request.query := d\<rparr>)))
      in if length errors3 > 0
         then \<lparr>req = req3,
               sent = [(400, \<lparr>success = False, error_body.message = ''Validation error'', errors = errors3\<rparr>)],
               next_calls = 0\<rparr>
         else \<lparr>req = req3, sent = [], next_calls = 1\<rparr>)"

text \<open>\<^verbatim>\<open>validateRequest\<close>, kept by the source for backward compatibility.\<close>

definition validateRequest ::
    "'v zod_schema \<Rightarrow> ('v, 'z) request_scheme \<Rightarrow> ('v, 'z) outcome" where
  "validateRequest schema =
     validateRequestEnhanced \<lparr>ValidationSchemas.body = Some schema,
                              ValidationSchemas.params = None,
                              ValidationSchemas.query = None\<rparr>"

subsection \<open>What a schema reports for one request part\<close>

text \<open>
  The vocabulary of the claims about the middleware, stated on the schema results alone:
  whether a supplied schema rejects the part it is given, which issues it reports, the
  value the part holds after a successful parse, and the entry the error response lists for
  one issue of a part (the part's name, a dot, and the issue's path joined by dots).
\<close>

definition rejects :: "'v zod_schema option \<Rightarrow> 'v \<Rightarrow> bool" where
  "rejects schema v =
     (case schema of None \<Rightarrow> False
      | Some s \<Rightarrow> (case s v of ParseError issues \<Rightarrow> True | ParseSuccess d \<Rightarrow> False))"

definition reported_issues :: "'v zod_schema option \<Rightarrow> 'v \<Rightarrow> zod_issue list" where
  "reported_issues schema v =
     (case schema of None \<Rightarrow> []
      | Some s \<Rightarrow> (case s v of ParseError issues \<Rightarrow> issues | ParseSuccess d \<Rightarrow> []))"

definition parsed_or_kept :: "'v zod_schema option \<Rightarrow> 'v \<Rightarrow> 'v" where
  "parsed_or_kept schema v =
     (case schema of None \<Rightarrow> v
      | Some s \<Rightarrow> (case s v of ParseError issues \<Rightarrow> v | ParseSuccess d \<Rightarrow> d))"

definition entry_of :: "string \<Rightarrow> zod_issue \<Rightarrow> error_entry" where
  "entry_of part err =
     \<lparr>field = part @ ''.'' @ join ''.'' (map path_elem_text (zod_issue.path err)),
      error_entry.message = zod_issue.message err\<rparr>"

definition all_entries :: "'v ValidationSchemas \<Rightarrow> ('v, 'z) request_scheme \<Rightarrow> error_entry list" where
  "all_entries schemas r =
     map (entry_of ''body'') (reported_issues (ValidationSchemas.body schemas) (request.body r))
     @ map (entry_of ''params'') (reported_issues (ValidationSchemas.params schemas) (request.params r))
     @ map (entry_of ''query'') (reported_issues (ValidationSchemas.query schemas) (request.query r))"

text \<open>
  The fields of a request that failed validation: the part and path of every reported issue,
  each field once.
\<close>

definition failed_fields ::
    "'v ValidationSchemas \<Rightarrow> ('v, 'z) request_scheme \<Rightarrow> (string \<times> path_elem list) list" where
  "failed_fields schemas r =
     remdups
       (map (\<lambda>i. (''body'', zod_issue.path i))
            (reported_issues (ValidationSchemas.body schemas) (request.body r))
        @ map (\<lambda>i. (''params'', zod_issue.path i))
            (reported_issues (ValidationSchemas.params schemas) (request.params r))
        @ map (\<lambda>i. (''query'', zod_issue.path i))
            (reported_issues (ValidationSchemas.query schemas) (request.query r)))"

definition any_part_rejected :: "'v ValidationSchemas \<Rightarrow> ('v, 'z) request_scheme \<Rightarrow> bool" where
  "any_part_rejected schemas r =
     (rejects (ValidationSchemas.body schemas) (request.body r)
      \<or> rejects (ValidationSchemas.params schemas) (request.params r)
      \<or> rejects (ValidationSchemas.query schemas) (request.query r))"

text \<open>
  The schema library's \<^verbatim>\<open>safeParse\<close> never returns \<^verbatim>\<open>success: false\<close> with an empty
  issue list (it throws instead of returning such a result). The type \<^typ>\<open>'v safe_parse\<close>
  does not say so, hence the contract is a predicate on the results the three schemas give
  for one request.
\<close>

definition reports_on_failure :: "'v zod_schema option \<Rightarrow> 'v \<Rightarrow> bool" where
  "reports_on_failure schema v = (rejects schema v \<longrightarrow> reported_issues schema v \<noteq> [])"

definition failures_carry_issues :: "'v ValidationSchemas \<Rightarrow> ('v, 'z) request_scheme \<Rightarrow> bool" where
  "failures_carry_issues schemas r =
     (reports_on_failure (ValidationSchemas.body schemas) (request.body r)
      \<and> reports_on_failure (ValidationSchemas.params schemas) (request.params r)
      \<and> reports_on_failure (ValidationSchemas.query schemas) (request.query r))"

subsection \<open>Concrete requests and schemas\<close>

text \<open>
  Request parts are JSON values in the examples. The three schemas below stand for schemas of
  the schema library and answer as these do; they are inputs of the middleware, used in the
  examples only.
\<close>

datatype json =
  JNull | JBool bool | JNum int | JStr string | JArr "json list" | JObj "(string \<times> json) list"

text \<open>The name the schema library gives the type of a value in its messages.\<close>

fun json_type_name :: "json \<Rightarrow> string" where
  "json_type_name JNull = ''null''"
| "json_type_name (JBool b) = ''boolean''"
| "json_type_name (JNum n) = ''number''"
| "json_type_name (JStr s) = ''string''"
| "json_type_name (JArr xs) = ''array''"
| "json_type_name (JObj kvs) = ''object''"

text \<open>
  The e-mail pattern of \<^verbatim>\<open>z.string().email()\<close>: the address does not start with a dot
  and has no two dots in a row; the part before the \<^verbatim>\<open>@\<close> is made of letters, digits
  and \<^verbatim>\<open>_ ' + - .\<close> and ends with a letter, a digit or one of \<^verbatim>\<open>_ + -\<close>; the part
  after it is one or more labels, each a letter or digit followed by letters, digits and
  hyphens and closed by a dot, and then at least two letters.
\<close>

definition is_letter :: "char \<Rightarrow> bool" where
  "is_letter c =
     ((65 \<le> (of_char c :: nat) \<and> (of_char c :: nat) \<le> 90)
      \<or> (97 \<le> (of_char c :: nat) \<and> (of_char c :: nat) \<le> 122))"

definition is_digit :: "char \<Rightarrow> bool" where
  "is_digit c = (48 \<le> (of_char c :: nat) \<and> (of_char c :: nat) \<le> 57)"

fun split_on :: "char \<Rightarrow> string \<Rightarrow> string list" where
  "split_on c [] = [[]]"
| "split_on c (x # xs) =
     (if x = c then [] # split_on c xs
      else (case split_on c xs of
              [] \<Rightarrow> [[x]]
            | w # ws \<Rightarrow> (x # w) # ws))"

fun has_two_dots_in_a_row :: "string \<Rightarrow> bool" where
  "has_two_dots_in_a_row (x # y # ys) =
     ((x = CHR ''.'' \<and> y = CHR ''.'') \<or> has_two_dots_in_a_row (y # ys))"
| "has_two_dots_in_a_row other = False"

definition domain_label_ok :: "string \<Rightarrow> bool" where
  "domain_label_ok l =
     (case l of
        [] \<Rightarrow> False
      | c # cs \<Rightarrow> (is_letter c \<or> is_digit c)
                 \<and> list_all (\<lambda>d. is_letter d \<or> is_digit d \<or> d = CHR ''-'') cs)"

definition looks_like_email :: "string \<Rightarrow> bool" where
  "looks_like_email s =
     (case split_on (CHR ''@'') s of
        [local_part, domain_part] \<Rightarrow>
          local_part \<noteq> []
          \<and> hd local_part \<noteq> CHR ''.''
          \<and> \<not> has_two_dots_in_a_row s
          \<and> list_all (\<lambda>c. is_letter c \<or> is_digit c
                            \<or> c = CHR ''_'' \<or> c = CHR 0x27 \<or> c = CHR ''+''
                            \<or> c = CHR ''-'' \<or> c = CHR ''.'') local_part
          \<and> (is_letter (last local_part) \<or> is_digit (last local_part)
               \<or> last local_part = CHR ''_'' \<or> last local_part = CHR ''+''
               \<or> last local_part = CHR ''-'')
          \<and> (let labels = split_on (CHR ''.'') domain_part
               in 2 \<le> length labels
                  \<and> list_all domain_label_ok (butlast labels)
                  \<and> 2 \<le> length (last labels)
                  \<and> list_all is_letter (last labels))
      | other \<Rightarrow> False)"

text \<open>
  \<open>example_login_schema\<close> answers as
  \<^verbatim>\<open>z.object({ email: z.string().email(), password: z.string().min(8) })\<close> does: every
  key is checked and the issues of all keys are reported together, a missing key as
  \<^verbatim>\<open>Required\<close>; on success the object is returned with the two keys of the schema only.
\<close>

definition example_login_schema :: "json zod_schema" where
  "example_login_schema v =
     (case v of
        JObj kvs \<Rightarrow>
          (let issues =
                 (case map_of kvs ''email'' of
                    None \<Rightarrow> [\<lparr>zod_issue.path = [Key ''email''], zod_issue.message = ''Required''\<rparr>]
                  | Some (JStr s) \<Rightarrow>
                      if looks_like_email s then []
                      else [\<lparr>zod_issue.path = [Key ''email''], zod_issue.message = ''Invalid email''\<rparr>]
                  | Some other \<Rightarrow>
                      [\<lparr>zod_issue.path = [Key ''email''],
                        zod_issue.message = ''Expected string, received '' @ json_type_name other\<rparr>])
                 @
                 (case map_of kvs ''password'' of
                    None \<Rightarrow> [\<lparr>zod_issue.path = [Key ''password''], zod_issue.message = ''Required''\<rparr>]
                  | Some (JStr s) \<Rightarrow>
                      if 8 \<le> length s then []
                      else [\<lparr>zod_issue.path = [Key ''password''],
                             zod_issue.message = ''String must contain at least 8 character(s)''\<rparr>]
                  | Some other \<Rightarrow>
                      [\<lparr>zod_issue.path = [Key ''password''],
                        zod_issue.message = ''Expected string, received '' @ json_type_name other\<rparr>])
           in if issues = []
              then ParseSuccess
                     (JObj (map (\<lambda>k. (k, the (map_of kvs k))) [''email'', ''password'']))
              else ParseError issues)
      | other \<Rightarrow>
          ParseError [\<lparr>zod_issue.path = [],
                       zod_issue.message = ''Expected object, received '' @ json_type_name other\<rparr>])"

text \<open>\<open>example_id_schema\<close> answers as \<^verbatim>\<open>z.object({ id: z.string() })\<close> does.\<close>

definition example_id_schema :: "json zod_schema" where
  "example_id_schema v =
     (case v of
        JObj kvs \<Rightarrow>
          (case map_of kvs ''id'' of
             None \<Rightarrow> ParseError [\<lparr>zod_issue.path = [Key ''id''], zod_issue.message = ''Required''\<rparr>]
           | Some (JStr s) \<Rightarrow> ParseSuccess (JObj [(''id'', JStr s)])
           | Some other \<Rightarrow>
               ParseError [\<lparr>zod_issue.path = [Key ''id''],
                            zod_issue.message = ''Expected string, received '' @ json_type_name other\<rparr>])
      | other \<Rightarrow>
          ParseError [\<lparr>zod_issue.path = [],
                       zod_issue.message = ''Expected object, received '' @ json_type_name other\<rparr>])"

text \<open>
  \<open>example_password_schema\<close> answers as
  \<^verbatim>\<open>z.object({ password: z.string().min(8).regex(/[0-9]/) })\<close> does: both checks of the
  string run, and each one that fails reports its own issue at the same path.
\<close>

definition example_password_schema :: "json zod_schema" where
  "example_password_schema v =
     (case v of
        JObj kvs \<Rightarrow>
          (case map_of kvs ''password'' of
             None \<Rightarrow>
               ParseError [\<lparr>zod_issue.path = [Key ''password''], zod_issue.message = ''Required''\<rparr>]
           | Some (JStr s) \<Rightarrow>
               (let issues =
                      (if 8 \<le> length s then []
                       else [\<lparr>zod_issue.path = [Key ''password''],
                              zod_issue.message = ''String must contain at least 8 character(s)''\<rparr>])
                      @ (if list_ex is_digit s then []
                         else [\<lparr>zod_issue.path = [Key ''password''],
                                zod_issue.message = ''Invalid''\<rparr>])
                in if issues = [] then ParseSuccess (JObj [(''password'', JStr s)])
                   else ParseError issues)
           | Some other \<Rightarrow>
               ParseError [\<lparr>zod_issue.path = [Key ''password''],
                            zod_issue.message = ''Expected string, received '' @ json_type_name other\<rparr>])
      | other \<Rightarrow>
          ParseError [\<lparr>zod_issue.path = [],
                       zod_issue.message = ''Expected object, received '' @ json_type_name other\<rparr>])"

definition password_only_schemas :: "json ValidationSchemas" where
  "password_only_schemas =
     \<lparr>ValidationSchemas.body = Some example_password_schema,
      ValidationSchemas.params = None,
      ValidationSchemas.query = None\<rparr>"

definition weak_password_request :: "json request" where
  "weak_password_request =
     \<lparr>request.body = JObj [(''password'', JStr ''abc'')],
      request.params = JObj [],
      request.query = JObj []\<rparr>"

definition example_schemas :: "json ValidationSchemas" where
  "example_schemas =
     \<lparr>ValidationSchemas.body = Some example_login_schema,
      ValidationSchemas.params = Some example_id_schema,
      ValidationSchemas.query = None\<rparr>"

definition bad_login_request :: "json request" where
  "bad_login_request =
     \<lparr>request.body = JObj [(''email'', JStr ''not-an-email'')],
      request.params = JObj [(''id'', JStr ''7'')],
      request.query = JObj []\<rparr>"

definition bad_login_and_params_request :: "json request" where
  "bad_login_and_params_request =
     \<lparr>request.body = JObj [(''email'', JStr ''not-an-email'')],
      request.params = JObj [],
      request.query = JObj []\<rparr>"

definition bad_params_request :: "json request" where
  "bad_params_request =
     \<lparr>request.body = JObj [(''email'', JStr ''a@b.co''), (''password'', JStr ''12345678''),
                          (''extra'', JNull)],
      request.params = JObj [],
      request.query = JObj [(''page'', JStr ''1'')]\<rparr>"

section \<open>Controller metadata and its two materializers\<close>

text \<open>
  The decorator module (\<^verbatim>\<open>decorators/router.generator\<close>, with
  \<^verbatim>\<open>createRouterFromController\<close> and \<^verbatim>\<open>generateSwaggerFromController\<close>) is not among
  the source files; only its user guide is. Everything in this section follows the
  specification's sections 3, 4.2, 4.3 and 7.
\<close>

text \<open>
  Modelled from the spec: the enumeration of HTTP verbs of the missing route metadata
  (section 3: one of GET, POST, PUT, PATCH, DELETE).
\<close>

datatype http_method = GET | POST | PUT | PATCH | DELETE

text \<open>
  Modelled from the spec: the name of a verb, which the missing
  \<^verbatim>\<open>generateSwaggerFromController\<close> writes in lower case (section 4.3).
\<close>

fun http_method_name :: "http_method \<Rightarrow> string" where
  "http_method_name GET = ''GET''"
| "http_method_name POST = ''POST''"
| "http_method_name PUT = ''PUT''"
| "http_method_name PATCH = ''PATCH''"
| "http_method_name DELETE = ''DELETE''"

text \<open>
  Modelled from the spec: the missing declaration of the documentation fields of a method
  (section 3, \<^verbatim>\<open>docFields\<close>): summary, description, tag list, the response description of
  each declared status code, and the bearer-auth flag.
\<close>

record DocFields =
  summary :: "string option"
  description :: "string option"
  tags :: "string list"
  responses :: "(nat \<times> string) list"
  bearerAuth :: bool

text \<open>
  Modelled from the spec: the missing declaration of the metadata of one decorated method
  (section 3, \<^verbatim>\<open>RouteMetadata\<close>). \<open>httpMethod\<close> is optional because a decorated method
  may lack its verb annotation (sections 4.2 and 7); handlers and middlewares are values of
  an arbitrary type \<open>'h\<close>.
\<close>

record ('h, 'v) RouteMetadata =
  httpMethod :: "http_method option"
  path :: string
  handlerRef :: 'h
  middlewares :: "'h list"
  validation :: "'v ValidationSchemas option"
  docFields :: "DocFields option"

text \<open>
  Modelled from the spec: the missing declaration of the metadata of a controller class
  (section 3, \<^verbatim>\<open>ControllerMetadata\<close>), together with the metadata of its decorated
  methods in the order of their declaration.
\<close>

record ('h, 'v) ControllerMetadata =
  basePath :: string
  tags :: "string list"
  routes :: "('h, 'v) RouteMetadata list"

text \<open>
  Modelled from the spec: the steps of a handler chain built by the missing
  \<^verbatim>\<open>createRouterFromController\<close> (section 4.2, step 2): a middleware, the validation
  step, the bound method.
\<close>

datatype ('h, 'v) chain_step =
  RunMiddleware 'h | RunValidation "'v ValidationSchemas" | RunHandler 'h

text \<open>
  Modelled from the spec: the handler chain of section 4.2, step 2, of the missing
  \<^verbatim>\<open>createRouterFromController\<close>: the method's middlewares in declaration order, then
  the validation step when validation schemas are attached, then the bound method.
\<close>

definition handler_chain :: "('h, 'v) RouteMetadata \<Rightarrow> ('h, 'v) chain_step list" where
  "handler_chain r =
     map RunMiddleware (middlewares r)
     @ (case validation r of None \<Rightarrow> [] | Some schemas \<Rightarrow> [RunValidation schemas])
     @ [RunHandler (handlerRef r)]"

text \<open>
  Modelled from the spec: the key under which the missing \<^verbatim>\<open>createRouterFromController\<close>
  registers a method (section 4.2, steps 1 and 3): the verb and the base path followed by
  the method's path; a method without a verb has none.
\<close>

definition route_key :: "string \<Rightarrow> ('h, 'v) RouteMetadata \<Rightarrow> (http_method \<times> string) option" where
  "route_key base r =
     (case httpMethod r of
        None \<Rightarrow> None
      | Some m \<Rightarrow> Some (m, base @ RouteMetadata.path r))"

text \<open>
  Modelled from the spec: the router the missing \<^verbatim>\<open>createRouterFromController\<close>
  returns (section 4.2, step 3): its registrations, each a key with its handler chain, in
  the order in which they were made.
\<close>

type_synonym ('h, 'v) router = "((http_method \<times> string) \<times> ('h, 'v) chain_step list) list"

text \<open>
  Modelled from the spec: one registration of the missing \<^verbatim>\<open>createRouterFromController\<close>
  (section 4.2): a method with a verb is appended to the router's registrations under its
  key, a method without one is skipped.
\<close>

definition register_route ::
    "string \<Rightarrow> ('h, 'v) router \<Rightarrow> ('h, 'v) RouteMetadata \<Rightarrow> ('h, 'v) router" where
  "register_route base router r =
     (case route_key base r of
        None \<Rightarrow> router
      | Some key \<Rightarrow> router @ [(key, handler_chain r)])"

text \<open>
  Modelled from the spec: the missing \<^verbatim>\<open>createRouterFromController\<close> (section 4.2): the
  methods are registered one after the other, in the order of their declaration.
\<close>

definition createRouterFromController :: "('h, 'v) ControllerMetadata \<Rightarrow> ('h, 'v) router" where
  "createRouterFromController c = foldl (register_route (basePath c)) [] (routes c)"

text \<open>
  Modelled from the spec: which chain the router built by the missing
  \<^verbatim>\<open>createRouterFromController\<close> runs for a verb and path (sections 4.2 and 7: the later
  registration wins): the one registered last under that key.
\<close>

definition dispatch ::
    "('h, 'v) router \<Rightarrow> http_method \<times> string \<Rightarrow> ('h, 'v) chain_step list option" where
  "dispatch router key = map_of (rev router) key"

text \<open>
  Modelled from the spec: the operation object the missing
  \<^verbatim>\<open>generateSwaggerFromController\<close> emits for one method (section 4.3): summary,
  description, tags, an optional request body, the security requirements, and the
  responses by status code.
\<close>

record 'b operation =
  summary :: string
  description :: string
  tags :: "string list"
  requestBody :: "'b option"
  security :: "(string \<times> string list) list"
  responses :: "(nat \<times> string) list"

text \<open>
  Modelled from the spec: how the missing \<^verbatim>\<open>generateSwaggerFromController\<close> fills the
  operation of one method (section 4.3): summary, description and tags from the
  documentation fields, empty when absent; a request body derived from the body schema by
  the parameter \<open>shape\<close>; the bearer security requirement when the flag is set; one
  response per declared status code.
\<close>

definition doc_operation ::
    "('v zod_schema \<Rightarrow> 'b) \<Rightarrow> ('h, 'v) RouteMetadata \<Rightarrow> 'b operation" where
  "doc_operation shape r =
     \<lparr>operation.summary =
        (case docFields r of None \<Rightarrow> []
         | Some d \<Rightarrow> (case DocFields.summary d of None \<Rightarrow> [] | Some s \<Rightarrow> s)),
      operation.description =
        (case docFields r of None \<Rightarrow> []
         | Some d \<Rightarrow> (case DocFields.description d of None \<Rightarrow> [] | Some s \<Rightarrow> s)),
      operation.tags = (case docFields r of None \<Rightarrow> [] | Some d \<Rightarrow> DocFields.tags d),
      requestBody =
        (case validation r of None \<Rightarrow> None
         | Some schemas \<Rightarrow> map_option shape (ValidationSchemas.body schemas)),
      security =
        (case docFields r of None \<Rightarrow> []
         | Some d \<Rightarrow> if bearerAuth d then [(''bearerAuth'', [])] else []),
      operation.responses =
        (case docFields r of None \<Rightarrow> [] | Some d \<Rightarrow> DocFields.responses d)\<rparr>"

text \<open>
  Modelled from the spec: the missing \<^verbatim>\<open>generateSwaggerFromController\<close> (section 4.3):
  for every method with a verb, one path item keyed by the full path (the caller's mount
  prefix, the base path, the method's path) and the lower-cased verb, in declaration order.
  A method without a verb is not a route (section 7) and gets no path item.
\<close>

definition generateSwaggerFromController ::
    "('v zod_schema \<Rightarrow> 'b) \<Rightarrow> ('h, 'v) ControllerMetadata \<Rightarrow> string
       \<Rightarrow> ((string \<times> string) \<times> 'b operation) list" where
  "generateSwaggerFromController shape c prefix =
     concat (map (\<lambda>r. case httpMethod r of
                         None \<Rightarrow> []
                       | Some m \<Rightarrow>
                           [((prefix @ basePath c @ RouteMetadata.path r,
                              toLowerCase (http_method_name m)),
                             doc_operation shape r)])
                 (routes c))"

text \<open>
  The path item key that corresponds to a registration key of the router when the router
  is mounted under \<open>prefix\<close>.
\<close>

definition path_item_key :: "string \<Rightarrow> http_method \<times> string \<Rightarrow> string \<times> string" where
  "path_item_key prefix key = (prefix @ snd key, toLowerCase (http_method_name (fst key)))"

text \<open>
  A controller with two methods declared for the same verb and path, and one method without
  a verb; handlers are numbered.
\<close>

definition users_controller :: "(nat, json) ControllerMetadata" where
  "users_controller =
     \<lparr>basePath = ''/users'', ControllerMetadata.tags = [''Users''],
      routes =
        [\<lparr>httpMethod = Some GET, RouteMetadata.path = ''/profile'', handlerRef = 1,
          middlewares = [10], validation = None,
          docFields = Some \<lparr>DocFields.summary = Some ''Get user profile'',
                            DocFields.description = None, DocFields.tags = [''Users''],
                            DocFields.responses = [(200, ''Profile retrieved successfully''),
                                                   (401, ''Unauthorized'')],
                            bearerAuth = True\<rparr>\<rparr>,
         \<lparr>httpMethod = None, RouteMetadata.path = ''/helper'', handlerRef = 2,
          middlewares = [], validation = None, docFields = None\<rparr>,
         \<lparr>httpMethod = Some POST, RouteMetadata.path = [], handlerRef = 3,
          middlewares = [], validation = Some example_schemas, docFields = None\<rparr>,
         \<lparr>httpMethod = Some GET, RouteMetadata.path = ''/profile'', handlerRef = 4,
          middlewares = [], validation = None, docFields = None\<rparr>]\<rparr>"

section \<open>Documentation helper (src/config/docs.config.ts)\<close>

text \<open>
  The argument of \<^verbatim>\<open>DocHelpers.endpoint\<close>. The fields \<^verbatim>\<open>description\<close>,
  \<^verbatim>\<open>auth\<close>, \<^verbatim>\<open>body\<close> and \<^verbatim>\<open>responses\<close> are optional in the source; status
  codes are natural numbers, which the template writes in decimal.
\<close>

record endpoint_config =
  "method" :: string
  path :: string
  summary :: string
  description :: "string option"
  tags :: "string list"
  auth :: "bool option"
  body :: "string option"
  responses :: "nat list option"

text \<open>
  The template literal of \<^verbatim>\<open>DocHelpers.endpoint\<close>, piece by piece. The operators of the
  source decide on truthiness: \<^verbatim>\<open>config.description || config.summary\<close> takes the summary
  for an absent and for an empty description, \<^verbatim>\<open>config.auth ? \<dots>\<close> holds for
  \<^verbatim>\<open>true\<close> only, \<^verbatim>\<open>config.body ? \<dots>\<close> for a non-empty name, and
  \<^verbatim>\<open>config.responses || [200, 400, 500]\<close> takes the three codes for an absent array only
  (an empty array is truthy).
\<close>

definition endpoint :: "endpoint_config \<Rightarrow> string" where
  "endpoint config =
     ''\<newline>/**\<newline> * @swagger\<newline> * '' @ endpoint_config.path config
     @ '':\<newline> *   '' @ toLowerCase (method config)
     @ '':\<newline> *     summary: '' @ summary config
     @ ''\<newline> *     description: ''
     @ (case description config of
          None \<Rightarrow> summary config
        | Some d \<Rightarrow> if d = [] then summary config else d)
     @ ''\<newline> *     tags: ['' @ join '', '' (tags config) @ '']''
     @ (if auth config = Some True
        then ''\<newline> *     security:\<newline> *       - bearerAuth: []'' else [])
     @ (case endpoint_config.body config of
          None \<Rightarrow> []
        | Some b \<Rightarrow>
            if b = [] then []
            else ''\<newline> *     requestBody:\<newline> *       required: true\<newline> *       content:\<newline> *         application/json:\<newline> *           schema:\<newline> *             $ref: ''
                 @ [CHR 0x27] @ ''#/components/schemas/'' @ b @ [CHR 0x27])
     @ ''\<newline> *     responses:''
     @ join []
         (map (\<lambda>code. ''\<newline> *       '' @ string_of_nat code @ '':\<newline> *         $ref: ''
                       @ [CHR 0x27] @ ''#/components/responses/'' @ string_of_nat code @ [CHR 0x27])
            (case responses config of None \<Rightarrow> [200, 400, 500] | Some rs \<Rightarrow> rs))
     @ ''\<newline> */''"

text \<open>
  \<^verbatim>\<open>StandardResponses\<close>: the response components the emitted references point to, each
  with its description.
\<close>

definition StandardResponses :: "(nat \<times> string) list" where
  "StandardResponses =
     [(200, ''Success''), (201, ''Created''), (400, ''Bad Request''), (401, ''Unauthorized''),
      (403, ''Forbidden''), (404, ''Not Found''), (500, ''Internal Server Error'')]"

subsection \<open>The parts of an emitted annotation\<close>

text \<open>
  The vocabulary of the claims about the helper: the text up to and including the tags line,
  the security requirement, the request body reference, one response entry, the status codes
  a configuration declares, and the status codes the helper writes entries for.
\<close>

definition doc_upto_tags :: "endpoint_config \<Rightarrow> string" where
  "doc_upto_tags config =
     ''\<newline>/**\<newline> * @swagger\<newline> * '' @ endpoint_config.path config
     @ '':\<newline> *   '' @ toLowerCase (method config)
     @ '':\<newline> *     summary: '' @ summary config
     @ ''\<newline> *     description: ''
     @ (case description config of
          None \<Rightarrow> summary config
        | Some d \<Rightarrow> if d = [] then summary config else d)
     @ ''\<newline> *     tags: ['' @ join '', '' (tags config) @ '']''"

definition security_entry :: string where
  "security_entry = ''\<newline> *     security:\<newline> *       - bearerAuth: []''"

definition request_body_entry :: "string option \<Rightarrow> string" where
  "request_body_entry b =
     (case b of
        None \<Rightarrow> []
      | Some name \<Rightarrow>
          if name = [] then []
          else ''\<newline> *     requestBody:\<newline> *       required: true\<newline> *       content:\<newline> *         application/json:\<newline> *           schema:\<newline> *             $ref: ''
               @ [CHR 0x27] @ ''#/components/schemas/'' @ name @ [CHR 0x27])"

definition response_entry :: "nat \<Rightarrow> string" where
  "response_entry code =
     ''\<newline> *       '' @ string_of_nat code @ '':\<newline> *         $ref: ''
     @ [CHR 0x27] @ ''#/components/responses/'' @ string_of_nat code @ [CHR 0x27]"

definition emitted_codes :: "endpoint_config \<Rightarrow> nat list" where
  "emitted_codes config = (case responses config of None \<Rightarrow> [200, 400, 500] | Some rs \<Rightarrow> rs)"

definition declared_codes :: "endpoint_config \<Rightarrow> nat list" where
  "declared_codes config = (case responses config of None \<Rightarrow> [] | Some rs \<Rightarrow> rs)"

definition responses_section :: "nat list \<Rightarrow> string" where
  "responses_section codes =
     ''\<newline> *     responses:'' @ concat (map response_entry codes) @ ''\<newline> */''"

definition doc_upto_body :: "endpoint_config \<Rightarrow> string" where
  "doc_upto_body config =
     doc_upto_tags config
     @ (if auth config = Some True then security_entry else [])
     @ request_body_entry (endpoint_config.body config)"

definition doc_after_security :: "endpoint_config \<Rightarrow> string" where
  "doc_after_security config =
     request_body_entry (endpoint_config.body config) @ responses_section (emitted_codes config)"

text \<open>
  A configuration with every optional field absent, and the profile operation of the
  example: \<^verbatim>\<open>GET\<close>, path \<^verbatim>\<open>/profile\<close> under the base path \<^verbatim>\<open>/users\<close>, bearer
  authentication, responses 200 and 401.
\<close>

definition minimal_config :: endpoint_config where
  "minimal_config =
     \<lparr>method = ''GET'', endpoint_config.path = ''/api/health'', summary = ''Health'',
      description = None, tags = [], auth = None, endpoint_config.body = None,
      responses = None\<rparr>"

definition profile_config :: endpoint_config where
  "profile_config =
     \<lparr>method = ''GET'', endpoint_config.path = ''/users'' @ ''/profile'',
      summary = ''Get user profile'', description = None, tags = [''Users''],
      auth = Some True, endpoint_config.body = None, responses = Some [200, 401]\<rparr>"

section \<open>Properties of the validation middleware\<close>

text \<open>
  The middleware in closed form: the errors it collects are the entries of the issues the
  three schemas report, and the request it leaves behind holds the parsed parts.
\<close>

lemma validate_closed_form:
  "validateRequestEnhanced schemas r =
     (if all_entries schemas r \<noteq> []
      then \<lparr>req = r\<lparr>request.body := parsed_or_kept (ValidationSchemas.body schemas) (request.body r),
                     request.params := parsed_or_kept (ValidationSchemas.params schemas) (request.params r),
                     request.query := parsed_or_kept (ValidationSchemas.query schemas) (request.query r)\<rparr>,
            sent = [(400, \<lparr>success = False, error_body.message = ''Validation error'',
                           errors = all_entries schemas r\<rparr>)],
            next_calls = 0\<rparr>
      else \<lparr>req = r\<lparr>request.body := parsed_or_kept (ValidationSchemas.body schemas) (request.body r),
                     request.params := parsed_or_kept (ValidationSchemas.params schemas) (request.params r),
                     request.query := parsed_or_kept (ValidationSchemas.query schemas) (request.query r)\<rparr>,
            sent = [], next_calls = 1\<rparr>)"
  by (cases r)
     (simp add: validateRequestEnhanced_def all_entries_def reported_issues_def parsed_or_kept_def
        entry_of_def split: option.splits safe_parse.splits)

lemma all_entries_nonempty:
  assumes "any_part_rejected schemas r" and "failures_carry_issues schemas r"
  shows "all_entries schemas r \<noteq> []"
  using assms
  by (auto simp: all_entries_def any_part_rejected_def failures_carry_issues_def
        reports_on_failure_def)

lemma sent_on_rejection:
  assumes "any_part_rejected schemas r" and "failures_carry_issues schemas r"
  shows "sent (validateRequestEnhanced schemas r) =
           [(400, \<lparr>success = False, error_body.message = ''Validation error'',
                    errors = all_entries schemas r\<rparr>)]"
  using all_entries_nonempty [OF assms] by (simp add: validate_closed_form)

lemma failed_field_has_entry:
  assumes "f \<in> set (failed_fields schemas r)"
  shows "\<exists>e \<in> set (all_entries schemas r).
           field e = fst f @ ''.'' @ join ''.'' (map path_elem_text (snd f))"
proof -
  from assms consider
      i where "i \<in> set (reported_issues (ValidationSchemas.body schemas) (request.body r))"
        and "f = (''body'', zod_issue.path i)"
    | i where "i \<in> set (reported_issues (ValidationSchemas.params schemas) (request.params r))"
        and "f = (''params'', zod_issue.path i)"
    | i where "i \<in> set (reported_issues (ValidationSchemas.query schemas) (request.query r))"
        and "f = (''query'', zod_issue.path i)"
    by (auto simp: failed_fields_def)
  then show ?thesis
  proof cases
    case 1
    then have "entry_of ''body'' i \<in> set (all_entries schemas r)"
      by (simp add: all_entries_def)
    moreover have "field (entry_of ''body'' i) =
                     fst f @ ''.'' @ join ''.'' (map path_elem_text (snd f))"
      using 1 by (simp add: entry_of_def)
    ultimately show ?thesis by blast
  next
    case 2
    then have "entry_of ''params'' i \<in> set (all_entries schemas r)"
      by (simp add: all_entries_def)
    moreover have "field (entry_of ''params'' i) =
                     fst f @ ''.'' @ join ''.'' (map path_elem_text (snd f))"
      using 2 by (simp add: entry_of_def)
    ultimately show ?thesis by blast
  next
    case 3
    then have "entry_of ''query'' i \<in> set (all_entries schemas r)"
      by (simp add: all_entries_def)
    moreover have "field (entry_of ''query'' i) =
                     fst f @ ''.'' @ join ''.'' (map path_elem_text (snd f))"
      using 3 by (simp add: entry_of_def)
    ultimately show ?thesis by blast
  qed
qed

lemma accepted_request_calls_next:
  assumes "\<not> any_part_rejected schemas r"
  shows "sent (validateRequestEnhanced schemas r) = []
         \<and> next_calls (validateRequestEnhanced schemas r) = 1"
proof -
  have "all_entries schemas r = []"
    using assms
    by (auto simp: all_entries_def any_part_rejected_def rejects_def reported_issues_def
          split: option.splits safe_parse.splits)
  then show ?thesis by (simp add: validate_closed_form)
qed

lemma example_login_bad:
  "example_login_schema (JObj [(''email'', JStr ''not-an-email'')]) =
     ParseError [\<lparr>zod_issue.path = [Key ''email''], zod_issue.message = ''Invalid email''\<rparr>,
                 \<lparr>zod_issue.path = [Key ''password''], zod_issue.message = ''Required''\<rparr>]"
  by code_simp

lemma example_id_good:
  "example_id_schema (JObj [(''id'', JStr ''7'')]) = ParseSuccess (JObj [(''id'', JStr ''7'')])"
  by code_simp

lemma example_id_bad:
  "example_id_schema (JObj []) =
     ParseError [\<lparr>zod_issue.path = [Key ''id''], zod_issue.message = ''Required''\<rparr>]"
  by code_simp

lemma example_login_good:
  "example_login_schema (JObj [(''email'', JStr ''a@b.co''), (''password'', JStr ''12345678''),
                          (''extra'', JNull)]) =
     ParseSuccess (JObj [(''email'', JStr ''a@b.co''), (''password'', JStr ''12345678'')])"
  by code_simp

lemma example_password_bad:
  "example_password_schema (JObj [(''password'', JStr ''abc'')]) =
     ParseError [\<lparr>zod_issue.path = [Key ''password''],
                  zod_issue.message = ''String must contain at least 8 character(s)''\<rparr>,
                 \<lparr>zod_issue.path = [Key ''password''], zod_issue.message = ''Invalid''\<rparr>]"
  by code_simp

lemmas example_runs = example_login_bad example_id_good example_id_bad example_login_good

lemma bad_login_hyps:
  "any_part_rejected example_schemas bad_login_request"
  "failures_carry_issues example_schemas bad_login_request"
  by (simp_all add: any_part_rejected_def failures_carry_issues_def reports_on_failure_def
        rejects_def reported_issues_def example_schemas_def bad_login_request_def example_runs)

lemma bad_login_and_params_hyps:
  "any_part_rejected example_schemas bad_login_and_params_request"
  "failures_carry_issues example_schemas bad_login_and_params_request"
  by (simp_all add: any_part_rejected_def failures_carry_issues_def reports_on_failure_def
        rejects_def reported_issues_def example_schemas_def bad_login_and_params_request_def
        example_runs)

lemma bad_params_hyps:
  "any_part_rejected example_schemas bad_params_request"
  "failures_carry_issues example_schemas bad_params_request"
  by (simp_all add: any_part_rejected_def failures_carry_issues_def reports_on_failure_def
        rejects_def reported_issues_def example_schemas_def bad_params_request_def example_runs)

text \<open>
  Claim C1, as stated: when a supplied schema rejects its part of the request, the errors
  array of the response has one entry per failed field. It fails when a schema reports two
  issues for one field: the body \<^verbatim>\<open>{ "password": "abc" }\<close> fails both checks of the
  password schema, the only failed field is \<^verbatim>\<open>password\<close> of the body, and the errors
  array has two entries for it.
\<close>
theorem one_failed_field_two_entries_counterexample:
  "any_part_rejected password_only_schemas weak_password_request
   \<and> failures_carry_issues password_only_schemas weak_password_request
   \<and> sent (validateRequestEnhanced password_only_schemas weak_password_request) =
       [(400, \<lparr>success = False, error_body.message = ''Validation error'',
                errors = [\<lparr>field = ''body.password'',
                            error_entry.message = ''String must contain at least 8 character(s)''\<rparr>,
                          \<lparr>field = ''body.password'', error_entry.message = ''Invalid''\<rparr>]\<rparr>)]
   \<and> failed_fields password_only_schemas weak_password_request = [(''body'', [Key ''password''])]"
  by (simp add: any_part_rejected_def failures_carry_issues_def reports_on_failure_def
        rejects_def reported_issues_def failed_fields_def validateRequestEnhanced_def
        password_only_schemas_def weak_password_request_def example_password_bad)

text \<open>
  Claim C1, amended. When at least one supplied schema rejects its part of the request, the
  middleware sends exactly one response, with status 400 and the body
  \<^verbatim>\<open>{ success: false, message: "Validation error", errors }\<close>. The errors array has one
  entry for each issue the schemas report: its length is the number of issues of body, params
  and query together, and every issue of every part has its entry in it, so a failure of one
  part does not hide the issues of another, and every failed field has at least one entry. The
  schemas are those of the schema library, whose failed results carry at least one issue
  (\<open>failures_carry_issues\<close>).
\<close>
theorem validation_failure_lists_every_issue:
  assumes "any_part_rejected schemas r" and "failures_carry_issues schemas r"
  shows "\<exists>es. sent (validateRequestEnhanced schemas r) =
                [(400, \<lparr>success = False, error_body.message = ''Validation error'', errors = es\<rparr>)]
            \<and> length es = length (reported_issues (ValidationSchemas.body schemas) (request.body r))
                          + length (reported_issues (ValidationSchemas.params schemas) (request.params r))
                          + length (reported_issues (ValidationSchemas.query schemas) (request.query r))
            \<and> (\<forall>i \<in> set (reported_issues (ValidationSchemas.body schemas) (request.body r)).
                   entry_of ''body'' i \<in> set es)
            \<and> (\<forall>i \<in> set (reported_issues (ValidationSchemas.params schemas) (request.params r)).
                   entry_of ''params'' i \<in> set es)
            \<and> (\<forall>i \<in> set (reported_issues (ValidationSchemas.query schemas) (request.query r)).
                   entry_of ''query'' i \<in> set es)
            \<and> (\<forall>f \<in> set (failed_fields schemas r).
                   \<exists>e \<in> set es. field e = fst f @ ''.'' @ join ''.'' (map path_elem_text (snd f)))"
proof -
  have s: "sent (validateRequestEnhanced schemas r) =
             [(400, \<lparr>success = False, error_body.message = ''Validation error'',
                      errors = all_entries schemas r\<rparr>)]"
    using assms by (rule sent_on_rejection)
  have f: "\<forall>f \<in> set (failed_fields schemas r).
             \<exists>e \<in> set (all_entries schemas r).
               field e = fst f @ ''.'' @ join ''.'' (map path_elem_text (snd f))"
    by (rule ballI) (rule failed_field_has_entry)
  have l: "length (all_entries schemas r) =
             length (reported_issues (ValidationSchemas.body schemas) (request.body r))
             + length (reported_issues (ValidationSchemas.params schemas) (request.params r))
             + length (reported_issues (ValidationSchemas.query schemas) (request.query r))"
    by (simp add: all_entries_def)
  have b: "\<forall>i \<in> set (reported_issues (ValidationSchemas.body schemas) (request.body r)).
             entry_of ''body'' i \<in> set (all_entries schemas r)"
    by (simp add: all_entries_def)
  have p: "\<forall>i \<in> set (reported_issues (ValidationSchemas.params schemas) (request.params r)).
             entry_of ''params'' i \<in> set (all_entries schemas r)"
    by (simp add: all_entries_def)
  have q: "\<forall>i \<in> set (reported_issues (ValidationSchemas.query schemas) (request.query r)).
             entry_of ''query'' i \<in> set (all_entries schemas r)"
    by (simp add: all_entries_def)
  from s l b p q f show ?thesis
    by (intro exI [of _ "all_entries schemas r"] conjI)
qed

theorem validation_failure_lists_every_issue_witness:
  "any_part_rejected example_schemas bad_login_and_params_request
   \<and> failures_carry_issues example_schemas bad_login_and_params_request
   \<and> (\<exists>es. sent (validateRequestEnhanced example_schemas bad_login_and_params_request) =
                [(400, \<lparr>success = False, error_body.message = ''Validation error'', errors = es\<rparr>)]
            \<and> length es = 3
            \<and> \<lparr>field = ''body.email'', error_entry.message = ''Invalid email''\<rparr> \<in> set es
            \<and> \<lparr>field = ''body.password'', error_entry.message = ''Required''\<rparr> \<in> set es
            \<and> \<lparr>field = ''params.id'', error_entry.message = ''Required''\<rparr> \<in> set es)"
proof -
  have b: "reported_issues (ValidationSchemas.body example_schemas)
             (request.body bad_login_and_params_request) =
             [\<lparr>zod_issue.path = [Key ''email''], zod_issue.message = ''Invalid email''\<rparr>,
              \<lparr>zod_issue.path = [Key ''password''], zod_issue.message = ''Required''\<rparr>]"
    by (simp add: reported_issues_def example_schemas_def bad_login_and_params_request_def
          example_runs)
  have p: "reported_issues (ValidationSchemas.params example_schemas)
             (request.params bad_login_and_params_request) =
             [\<lparr>zod_issue.path = [Key ''id''], zod_issue.message = ''Required''\<rparr>]"
    by (simp add: reported_issues_def example_schemas_def bad_login_and_params_request_def
          example_runs)
  have q: "reported_issues (ValidationSchemas.query example_schemas)
             (request.query bad_login_and_params_request) = []"
    by (simp add: reported_issues_def example_schemas_def)
  obtain es where
    "sent (validateRequestEnhanced example_schemas bad_login_and_params_request) =
       [(400, \<lparr>success = False, error_body.message = ''Validation error'', errors = es\<rparr>)]"
    and "length es =
           length (reported_issues (ValidationSchemas.body example_schemas)
                     (request.body bad_login_and_params_request))
           + length (reported_issues (ValidationSchemas.params example_schemas)
                       (request.params bad_login_and_params_request))
           + length (reported_issues (ValidationSchemas.query example_schemas)
                       (request.query bad_login_and_params_request))"
    and "\<forall>i \<in> set (reported_issues (ValidationSchemas.body example_schemas)
                      (request.body bad_login_and_params_request)).
           entry_of ''body'' i \<in> set es"
    and "\<forall>i \<in> set (reported_issues (ValidationSchemas.params example_schemas)
                      (request.params bad_login_and_params_request)).
           entry_of ''params'' i \<in> set es"
    using validation_failure_lists_every_issue [OF bad_login_and_params_hyps] by blast
  then show ?thesis
    using bad_login_and_params_hyps by (simp add: b p q entry_of_def numeral_3_eq_3)
qed

text \<open>
  Claim C2. When any supplied schema rejects its part of the request, the middleware answers
  with HTTP status 400 and does not call \<^verbatim>\<open>next()\<close>, so nothing downstream of it runs
  for this request. As for C1, the schemas' failed results carry at least one issue.
\<close>
theorem rejected_request_gets_400_and_no_next:
  assumes "any_part_rejected schemas r" and "failures_carry_issues schemas r"
  shows "map fst (sent (validateRequestEnhanced schemas r)) = [400]
         \<and> next_calls (validateRequestEnhanced schemas r) = 0"
  using all_entries_nonempty [OF assms] by (simp add: validate_closed_form)

theorem rejected_request_gets_400_and_no_next_witness:
  "any_part_rejected example_schemas bad_login_request
   \<and> failures_carry_issues example_schemas bad_login_request
   \<and> map fst (sent (validateRequestEnhanced example_schemas bad_login_request)) = [400]
   \<and> next_calls (validateRequestEnhanced example_schemas bad_login_request) = 0"
  using rejected_request_gets_400_and_no_next [OF bad_login_hyps] bad_login_hyps by simp

text \<open>
  Claim C9. In every response the middleware sends, the errors array lists the entries of the
  body issues first, then those of the params issues, then those of the query issues, each
  group in the order in which the schema reported its issues. The field of an entry is the
  name of the part, a dot, and the path of the issue joined by dots; its message is the
  issue's message.
\<close>
theorem errors_ordered_body_params_query:
  assumes "(code, b) \<in> set (sent (validateRequestEnhanced schemas r))"
  shows "errors b =
           map (entry_of ''body'') (reported_issues (ValidationSchemas.body schemas) (request.body r))
           @ map (entry_of ''params'') (reported_issues (ValidationSchemas.params schemas) (request.params r))
           @ map (entry_of ''query'') (reported_issues (ValidationSchemas.query schemas) (request.query r))
         \<and> (\<forall>part i. field (entry_of part i) =
                part @ ''.'' @ join ''.'' (map path_elem_text (zod_issue.path i))
              \<and> error_entry.message (entry_of part i) = zod_issue.message i)"
  using assms
  by (simp add: validate_closed_form all_entries_def entry_of_def split: if_splits)

theorem errors_ordered_body_params_query_witness:
  "(400, \<lparr>success = False, error_body.message = ''Validation error'',
          errors = [\<lparr>field = ''body.email'', error_entry.message = ''Invalid email''\<rparr>,
                    \<lparr>field = ''body.password'', error_entry.message = ''Required''\<rparr>,
                    \<lparr>field = ''params.id'', error_entry.message = ''Required''\<rparr>]\<rparr>)
     \<in> set (sent (validateRequestEnhanced example_schemas
                bad_login_and_params_request))
   \<and> map (entry_of ''body'') (reported_issues (ValidationSchemas.body example_schemas)
          (request.body bad_login_and_params_request))
     @ map (entry_of ''params'') (reported_issues (ValidationSchemas.params example_schemas)
          (request.params bad_login_and_params_request))
     @ map (entry_of ''query'') (reported_issues (ValidationSchemas.query example_schemas)
          (request.query bad_login_and_params_request))
     = [\<lparr>field = ''body.email'', error_entry.message = ''Invalid email''\<rparr>,
        \<lparr>field = ''body.password'', error_entry.message = ''Required''\<rparr>,
        \<lparr>field = ''params.id'', error_entry.message = ''Required''\<rparr>]"
proof -
  have m: "(400, \<lparr>success = False, error_body.message = ''Validation error'',
          errors = [\<lparr>field = ''body.email'', error_entry.message = ''Invalid email''\<rparr>,
                    \<lparr>field = ''body.password'', error_entry.message = ''Required''\<rparr>,
                    \<lparr>field = ''params.id'', error_entry.message = ''Required''\<rparr>]\<rparr>)
     \<in> set (sent (validateRequestEnhanced example_schemas
                bad_login_and_params_request))"
    by (simp add: validateRequestEnhanced_def example_schemas_def
          bad_login_and_params_request_def example_runs)
  from errors_ordered_body_params_query [OF m] m show ?thesis by simp
qed

text \<open>
  Claim C10. Whatever the middleware answers, each request part leaves it holding the parsed
  result when a schema was supplied for the part and accepted it, and its old value otherwise
  (no schema for the part, or the schema rejected it); the rest of the request is untouched.
  This does not depend on the other parts: a part that parsed is overwritten even when
  another part fails and the 400 response is sent, as the example after the theorem shows.
\<close>
theorem only_parsed_parts_are_overwritten:
  "request.body (req (validateRequestEnhanced schemas r)) =
     parsed_or_kept (ValidationSchemas.body schemas) (request.body r)
   \<and> request.params (req (validateRequestEnhanced schemas r)) =
     parsed_or_kept (ValidationSchemas.params schemas) (request.params r)
   \<and> request.query (req (validateRequestEnhanced schemas r)) =
     parsed_or_kept (ValidationSchemas.query schemas) (request.query r)
   \<and> request.more (req (validateRequestEnhanced schemas r)) = request.more r
   \<and> (\<forall>v. parsed_or_kept None v = v)
   \<and> (\<forall>s v d. s v = ParseSuccess d \<longrightarrow> parsed_or_kept (Some s) v = d)
   \<and> (\<forall>s v issues. s v = ParseError issues \<longrightarrow> parsed_or_kept (Some s) v = v)"
  by (simp add: validate_closed_form parsed_or_kept_def)

theorem only_parsed_parts_are_overwritten_witness:
  "map fst (sent (validateRequestEnhanced example_schemas bad_params_request)) = [400]
   \<and> next_calls (validateRequestEnhanced example_schemas bad_params_request) = 0
   \<and> request.body (req (validateRequestEnhanced example_schemas bad_params_request)) =
       JObj [(''email'', JStr ''a@b.co''), (''password'', JStr ''12345678'')]
   \<and> request.body (req (validateRequestEnhanced example_schemas bad_params_request)) \<noteq>
       request.body bad_params_request
   \<and> request.params (req (validateRequestEnhanced example_schemas bad_params_request)) =
       request.params bad_params_request
   \<and> request.query (req (validateRequestEnhanced example_schemas bad_params_request)) =
       request.query bad_params_request"
proof -
  have a: "example_login_schema (request.body bad_params_request) =
             ParseSuccess (JObj [(''email'', JStr ''a@b.co''), (''password'', JStr ''12345678'')])"
    by (simp add: bad_params_request_def example_runs)
  have b: "example_id_schema (request.params bad_params_request) =
             ParseError [\<lparr>zod_issue.path = [Key ''id''], zod_issue.message = ''Required''\<rparr>]"
    by (simp add: bad_params_request_def example_runs)
  have c: "map fst (sent (validateRequestEnhanced example_schemas bad_params_request)) = [400]
           \<and> next_calls (validateRequestEnhanced example_schemas bad_params_request) = 0"
    by (simp add: validateRequestEnhanced_def example_schemas_def bad_params_request_def
          example_runs)
  have d: "request.body bad_params_request \<noteq>
             JObj [(''email'', JStr ''a@b.co''), (''password'', JStr ''12345678'')]"
    by (simp add: bad_params_request_def)
  note t = only_parsed_parts_are_overwritten [of example_schemas bad_params_request]
  have e1: "request.body (req (validateRequestEnhanced example_schemas bad_params_request)) =
              JObj [(''email'', JStr ''a@b.co''), (''password'', JStr ''12345678'')]"
    using t [THEN conjunct1] a by (simp add: example_schemas_def parsed_or_kept_def)
  have e2: "request.params (req (validateRequestEnhanced example_schemas bad_params_request)) =
              request.params bad_params_request"
    using t [THEN conjunct2, THEN conjunct1] b by (simp add: example_schemas_def parsed_or_kept_def)
  have e3: "request.query (req (validateRequestEnhanced example_schemas bad_params_request)) =
              request.query bad_params_request"
    using t [THEN conjunct2, THEN conjunct2, THEN conjunct1]
    by (simp add: example_schemas_def parsed_or_kept_def)
  from c d e1 e2 e3 show ?thesis by simp
qed

text \<open>
  Claim C5. For a body schema that reports, on the request body, an issue at path
  \<^verbatim>\<open>email\<close> and an issue at path \<^verbatim>\<open>password\<close> (as the schema requiring an e-mail
  address and a password of at least 8 characters does on \<^verbatim>\<open>{ "email": "not-an-email" }\<close>),
  the middleware sends the 400 error response, and its errors array has an entry with field
  \<^verbatim>\<open>body.email\<close> and an entry with field \<^verbatim>\<open>body.password\<close>, each with the message of
  its issue.
\<close>
theorem bad_email_and_missing_password_both_listed:
  assumes "ValidationSchemas.body schemas = Some schema"
      and "schema (request.body r) = ParseError issues"
      and "e1 \<in> set issues" and "zod_issue.path e1 = [Key ''email'']"
      and "e2 \<in> set issues" and "zod_issue.path e2 = [Key ''password'']"
  shows "\<exists>es. sent (validateRequestEnhanced schemas r) =
                [(400, \<lparr>success = False, error_body.message = ''Validation error'', errors = es\<rparr>)]
            \<and> \<lparr>field = ''body.email'', error_entry.message = zod_issue.message e1\<rparr> \<in> set es
            \<and> \<lparr>field = ''body.password'', error_entry.message = zod_issue.message e2\<rparr> \<in> set es"
proof -
  have ri: "reported_issues (ValidationSchemas.body schemas) (request.body r) = issues"
    using assms(1,2) by (simp add: reported_issues_def)
  have m1: "entry_of ''body'' e1 \<in> set (all_entries schemas r)"
    using assms(3) by (simp add: all_entries_def ri)
  have m2: "entry_of ''body'' e2 \<in> set (all_entries schemas r)"
    using assms(5) by (simp add: all_entries_def ri)
  have f1: "entry_of ''body'' e1 = \<lparr>field = ''body.email'', error_entry.message = zod_issue.message e1\<rparr>"
    using assms(4) by (simp add: entry_of_def)
  have f2: "entry_of ''body'' e2 = \<lparr>field = ''body.password'', error_entry.message = zod_issue.message e2\<rparr>"
    using assms(6) by (simp add: entry_of_def)
  have ne: "all_entries schemas r \<noteq> []"
    using m1 by auto
  show ?thesis
    using ne m1 m2 f1 f2 by (simp add: validate_closed_form)
qed

theorem bad_email_and_missing_password_both_listed_witness:
  "\<exists>es. sent (validateRequest example_login_schema
               \<lparr>request.body = JObj [(''email'', JStr ''not-an-email'')],
                request.params = JObj [], request.query = JObj []\<rparr>) =
                [(400, \<lparr>success = False, error_body.message = ''Validation error'', errors = es\<rparr>)]
            \<and> \<lparr>field = ''body.email'', error_entry.message = ''Invalid email''\<rparr> \<in> set es
            \<and> \<lparr>field = ''body.password'', error_entry.message = ''Required''\<rparr> \<in> set es"
  using bad_email_and_missing_password_both_listed
    [of "\<lparr>ValidationSchemas.body = Some example_login_schema,
         ValidationSchemas.params = None, ValidationSchemas.query = None\<rparr>"
        example_login_schema
        "\<lparr>request.body = JObj [(''email'', JStr ''not-an-email'')],
                request.params = JObj [], request.query = JObj []\<rparr>"
        "[\<lparr>zod_issue.path = [Key ''email''], zod_issue.message = ''Invalid email''\<rparr>,
                 \<lparr>zod_issue.path = [Key ''password''], zod_issue.message = ''Required''\<rparr>]"
        "\<lparr>zod_issue.path = [Key ''email''], zod_issue.message = ''Invalid email''\<rparr>"
        "\<lparr>zod_issue.path = [Key ''password''], zod_issue.message = ''Required''\<rparr>"]
  by (simp add: validateRequest_def example_runs)

section \<open>Properties of the two materializers\<close>

text \<open>
  Both materializers in closed form: the registrations of the router and the keys of the
  path items, method by method.
\<close>

lemma foldl_register_route:
  "foldl (register_route base) acc rs =
     acc @ concat (map (\<lambda>r. case route_key base r of None \<Rightarrow> []
                                | Some key \<Rightarrow> [(key, handler_chain r)]) rs)"
  by (induction rs arbitrary: acc) (simp_all add: register_route_def split: option.splits)

lemma router_registrations:
  "createRouterFromController c =
     concat (map (\<lambda>r. case route_key (basePath c) r of None \<Rightarrow> []
                        | Some key \<Rightarrow> [(key, handler_chain r)]) (routes c))"
  by (simp add: createRouterFromController_def foldl_register_route)

lemma keys_of_registrations:
  "map fst (concat (map (\<lambda>r. case route_key base r of None \<Rightarrow> []
                              | Some key \<Rightarrow> [(key, handler_chain r)]) rs)) =
     concat (map (\<lambda>r. case route_key base r of None \<Rightarrow> [] | Some key \<Rightarrow> [key]) rs)"
  by (induction rs) (simp_all split: option.splits)

lemma router_keys:
  "map fst (createRouterFromController c) =
     concat (map (\<lambda>r. case route_key (basePath c) r of None \<Rightarrow> [] | Some key \<Rightarrow> [key])
               (routes c))"
  by (simp add: router_registrations keys_of_registrations)

lemma doc_keys_of_routes:
  "map fst (concat (map (\<lambda>r. case httpMethod r of
                         None \<Rightarrow> []
                       | Some m \<Rightarrow>
                           [((prefix @ base @ RouteMetadata.path r,
                              toLowerCase (http_method_name m)),
                             doc_operation shape r)]) rs)) =
     map (path_item_key prefix)
       (concat (map (\<lambda>r. case route_key base r of None \<Rightarrow> [] | Some key \<Rightarrow> [key]) rs))"
  by (induction rs) (simp_all add: route_key_def path_item_key_def split: option.splits)

lemma doc_keys:
  "map fst (generateSwaggerFromController shape c prefix) =
     map (path_item_key prefix) (map fst (createRouterFromController c))"
  by (simp add: generateSwaggerFromController_def doc_keys_of_routes router_keys)

lemma lower_method_names:
  "toLowerCase ''GET'' = ''get''"
  "toLowerCase ''POST'' = ''post''"
  "toLowerCase ''PUT'' = ''put''"
  "toLowerCase ''PATCH'' = ''patch''"
  "toLowerCase ''DELETE'' = ''delete''"
  by code_simp+

lemma lower_method_name_inj:
  "toLowerCase (http_method_name m) = toLowerCase (http_method_name m') \<Longrightarrow> m = m'"
  by (cases m; cases m') (simp_all add: lower_method_names)

lemma path_item_key_inj: "inj (path_item_key prefix)"
  by (rule injI) (auto simp: path_item_key_def prod_eq_iff dest: lower_method_name_inj)

lemma dispatch_last:
  assumes "rs = before @ [r] @ after"
      and "route_key base r = Some key"
      and "\<forall>r' \<in> set after. route_key base r' \<noteq> Some key"
  shows "map_of (rev (concat (map (\<lambda>r. case route_key base r of None \<Rightarrow> []
                        | Some key \<Rightarrow> [(key, handler_chain r)]) rs))) key = Some (handler_chain r)"
proof -
  let ?reg = "\<lambda>r. case route_key base r of None \<Rightarrow> [] | Some key \<Rightarrow> [(key, handler_chain r)]"
  have none: "map_of (rev (concat (map ?reg after))) key = None"
    using assms(3)
    by (induction after) (auto simp: map_of_eq_None_iff image_Un split: option.splits)
  show ?thesis
    using none assms(2) by (simp add: assms(1) map_add_def)
qed

text \<open>
  Claim C3. For every controller, the path items of the documentation materializer are the
  registrations of the router materializer, one for one and in the same order: the key of a
  path item is the registered path behind the mount prefix, with the registered verb in
  lower case. This correspondence of keys is one-to-one, so the two sets of routes are equal.
\<close>
theorem router_and_docs_have_the_same_routes:
  "set (map fst (generateSwaggerFromController shape c prefix)) =
     path_item_key prefix ` set (map fst (createRouterFromController c))
   \<and> map fst (generateSwaggerFromController shape c prefix) =
     map (path_item_key prefix) (map fst (createRouterFromController c))
   \<and> inj (path_item_key prefix)
   \<and> (\<forall>m p. path_item_key prefix (m, p) = (prefix @ p, toLowerCase (http_method_name m)))"
proof -
  have "set (map fst (generateSwaggerFromController shape c prefix)) =
          set (map (path_item_key prefix) (map fst (createRouterFromController c)))"
    by (simp only: doc_keys)
  then have "set (map fst (generateSwaggerFromController shape c prefix)) =
     path_item_key prefix ` set (map fst (createRouterFromController c))"
    by (simp only: set_map)
  then show ?thesis
    by (simp only: doc_keys path_item_key_inj path_item_key_def fst_conv snd_conv) simp
qed

theorem router_and_docs_have_the_same_routes_witness:
  "map fst (createRouterFromController users_controller) =
     [(GET, ''/users/profile''), (POST, ''/users''), (GET, ''/users/profile'')]
   \<and> map fst (generateSwaggerFromController (\<lambda>schema. ()) users_controller ''/api/v1'') =
     [(''/api/v1/users/profile'', ''get''), (''/api/v1/users'', ''post''),
      (''/api/v1/users/profile'', ''get'')]
   \<and> set (map fst (generateSwaggerFromController (\<lambda>schema. ()) users_controller ''/api/v1'')) =
     path_item_key ''/api/v1'' ` {(GET, ''/users/profile''), (POST, ''/users'')}"
proof -
  have k: "map fst (createRouterFromController users_controller) =
     [(GET, ''/users/profile''), (POST, ''/users''), (GET, ''/users/profile'')]"
    by (simp add: createRouterFromController_def users_controller_def register_route_def
          route_key_def)
  from router_and_docs_have_the_same_routes [of "\<lambda>schema. ()" users_controller "''/api/v1''"] k
  show ?thesis
    by (simp add: lower_method_names insert_commute)
qed

text \<open>
  Claim C8. The router materializer registers the methods that have a verb in the order of
  their declaration, each under its verb and the base path followed by its path. No
  registration is refused: there are as many registrations as methods with a verb, also when
  keys repeat. When several methods have the same key, the router runs the chain of the one
  declared last.
\<close>
theorem routes_registered_in_order_last_wins:
  "map fst (createRouterFromController c) =
     concat (map (\<lambda>r. case httpMethod r of None \<Rightarrow> []
                       | Some m \<Rightarrow> [(m, basePath c @ RouteMetadata.path r)]) (routes c))
   \<and> (\<forall>before r after m.
         routes c = before @ [r] @ after \<and> httpMethod r = Some m
         \<and> (\<forall>r' \<in> set after. route_key (basePath c) r' \<noteq> Some (m, basePath c @ RouteMetadata.path r))
         \<longrightarrow> dispatch (createRouterFromController c) (m, basePath c @ RouteMetadata.path r)
               = Some (handler_chain r))
   \<and> length (createRouterFromController c) =
       length (filter (\<lambda>r. httpMethod r \<noteq> None) (routes c))"
proof -
  have "concat (map (\<lambda>r. case route_key (basePath c) r of None \<Rightarrow> [] | Some key \<Rightarrow> [key]) rs) =
        concat (map (\<lambda>r. case httpMethod r of None \<Rightarrow> []
                       | Some m \<Rightarrow> [(m, basePath c @ RouteMetadata.path r)]) rs)" for rs
    by (induction rs) (simp_all add: route_key_def split: option.splits)
  then have 1: "map fst (createRouterFromController c) =
     concat (map (\<lambda>r. case httpMethod r of None \<Rightarrow> []
                       | Some m \<Rightarrow> [(m, basePath c @ RouteMetadata.path r)]) (routes c))"
    by (simp add: router_keys)
  have 2: "dispatch (createRouterFromController c) (m, basePath c @ RouteMetadata.path r)
               = Some (handler_chain r)"
    if "routes c = before @ [r] @ after" and "httpMethod r = Some m"
      and "\<forall>r' \<in> set after. route_key (basePath c) r' \<noteq> Some (m, basePath c @ RouteMetadata.path r)"
    for before r after m
  proof -
    have k: "route_key (basePath c) r = Some (m, basePath c @ RouteMetadata.path r)"
      using that(2) by (simp add: route_key_def)
    show ?thesis
      unfolding dispatch_def router_registrations
      by (rule dispatch_last [OF that(1) k that(3)])
  qed
  have "length (concat (map (\<lambda>r. case route_key (basePath c) r of None \<Rightarrow> []
                        | Some key \<Rightarrow> [(key, handler_chain r)]) rs)) =
        length (filter (\<lambda>r. httpMethod r \<noteq> None) rs)" for rs
    by (induction rs) (auto simp: route_key_def split: option.splits)
  then have 3: "length (createRouterFromController c) =
       length (filter (\<lambda>r. httpMethod r \<noteq> None) (routes c))"
    by (simp only: router_registrations)
  from 1 2 3 show ?thesis by blast
qed

theorem routes_registered_in_order_last_wins_witness:
  "map fst (createRouterFromController users_controller) =
     [(GET, ''/users/profile''), (POST, ''/users''), (GET, ''/users/profile'')]
   \<and> dispatch (createRouterFromController users_controller) (GET, ''/users/profile'') =
       Some [RunHandler 4]
   \<and> length (createRouterFromController users_controller) = 3"
proof -
  let ?r1 = "\<lparr>httpMethod = Some GET, RouteMetadata.path = ''/profile'', handlerRef = 1::nat,
          middlewares = [10], validation = None :: json ValidationSchemas option,
          docFields = Some \<lparr>DocFields.summary = Some ''Get user profile'',
                            DocFields.description = None, DocFields.tags = [''Users''],
                            DocFields.responses = [(200, ''Profile retrieved successfully''),
                                                   (401, ''Unauthorized'')],
                            bearerAuth = True\<rparr>\<rparr>"
  let ?r2 = "\<lparr>httpMethod = None, RouteMetadata.path = ''/helper'', handlerRef = 2::nat,
          middlewares = [], validation = None :: json ValidationSchemas option, docFields = None\<rparr>"
  let ?r3 = "\<lparr>httpMethod = Some POST, RouteMetadata.path = [], handlerRef = 3::nat,
          middlewares = [], validation = Some example_schemas, docFields = None\<rparr>"
  let ?r4 = "\<lparr>httpMethod = Some GET, RouteMetadata.path = ''/profile'', handlerRef = 4::nat,
          middlewares = [], validation = None :: json ValidationSchemas option, docFields = None\<rparr>"
  note t = routes_registered_in_order_last_wins [of users_controller]
  have split: "routes users_controller = [?r1, ?r2, ?r3] @ [?r4] @ []"
    by (simp add: users_controller_def)
  have d: "dispatch (createRouterFromController users_controller)
             (GET, basePath users_controller @ RouteMetadata.path ?r4) = Some (handler_chain ?r4)"
    using t [THEN conjunct2, THEN conjunct1, rule_format, of "[?r1, ?r2, ?r3]" ?r4 "[]" GET] split
    by simp
  have k: "map fst (createRouterFromController users_controller) =
     [(GET, ''/users/profile''), (POST, ''/users''), (GET, ''/users/profile'')]"
    using t [THEN conjunct1] by (simp add: users_controller_def)
  have l: "length (createRouterFromController users_controller) = 3"
    using t [THEN conjunct2, THEN conjunct2] by (simp add: users_controller_def)
  from d k l show ?thesis
    by (simp add: users_controller_def handler_chain_def)
qed

section \<open>Properties of the documentation helper\<close>

text \<open>
  The annotation is the text up to the tags line, the security requirement when the flag is
  set, the request body reference, and the responses section.
\<close>

lemma string_of_nat_codes:
  "string_of_nat 200 = ''200''" "string_of_nat 400 = ''400''" "string_of_nat 500 = ''500''"
  "string_of_nat 401 = ''401''" "string_of_nat 204 = ''204''"
  by code_simp+

lemma join_empty_sep: "join [] xs = concat xs"
  by (induction "[] :: string" xs rule: join.induct) simp_all

lemma endpoint_parts:
  "endpoint config =
     doc_upto_tags config
     @ (if auth config = Some True then security_entry else [])
     @ request_body_entry (endpoint_config.body config)
     @ responses_section (emitted_codes config)"
  by (simp add: emitted_codes_def endpoint_def doc_upto_tags_def security_entry_def request_body_entry_def
        responses_section_def response_entry_def [abs_def] join_empty_sep split: option.splits)

lemma endpoint_minimal_text:
  "endpoint minimal_config = ''\<newline>/**\<newline> * @swagger\<newline> * /api/health:\<newline> *   get:\<newline> *     summary: Health\<newline> *     description: Health\<newline> *     tags: []\<newline> *     responses:\<newline> *       200:\<newline> *         $ref: '' @ [CHR 0x27] @ ''#/components/responses/200'' @ [CHR 0x27] @ ''\<newline> *       400:\<newline> *         $ref: '' @ [CHR 0x27] @ ''#/components/responses/400'' @ [CHR 0x27] @ ''\<newline> *       500:\<newline> *         $ref: '' @ [CHR 0x27] @ ''#/components/responses/500'' @ [CHR 0x27] @ ''\<newline> */''"
  by (simp add: endpoint_def minimal_config_def string_of_nat_codes lower_method_names)

lemma endpoint_profile_text:
  "endpoint profile_config = ''\<newline>/**\<newline> * @swagger\<newline> * /users/profile:\<newline> *   get:\<newline> *     summary: Get user profile\<newline> *     description: Get user profile\<newline> *     tags: [Users]\<newline> *     security:\<newline> *       - bearerAuth: []\<newline> *     responses:\<newline> *       200:\<newline> *         $ref: '' @ [CHR 0x27] @ ''#/components/responses/200'' @ [CHR 0x27] @ ''\<newline> *       401:\<newline> *         $ref: '' @ [CHR 0x27] @ ''#/components/responses/401'' @ [CHR 0x27] @ ''\<newline> */''"
  by (simp add: endpoint_def profile_config_def string_of_nat_codes lower_method_names)

text \<open>
  Claim C4, as stated: the helper writes one response entry for each status code declared in
  \<^verbatim>\<open>responses\<close>, each with a description, and nothing for a code that is not declared.
  It fails when \<^verbatim>\<open>responses\<close> is absent: no code is declared, and the helper writes the
  entries of 200, 400 and 500. An entry holds a reference to a response component instead
  of a description, and for a declared code such as 204 there is no such component.
\<close>
theorem absent_responses_are_defaulted_counterexample:
  "declared_codes minimal_config = []
   \<and> endpoint minimal_config = ''\<newline>/**\<newline> * @swagger\<newline> * /api/health:\<newline> *   get:\<newline> *     summary: Health\<newline> *     description: Health\<newline> *     tags: []\<newline> *     responses:\<newline> *       200:\<newline> *         $ref: '' @ [CHR 0x27] @ ''#/components/responses/200'' @ [CHR 0x27] @ ''\<newline> *       400:\<newline> *         $ref: '' @ [CHR 0x27] @ ''#/components/responses/400'' @ [CHR 0x27] @ ''\<newline> *       500:\<newline> *         $ref: '' @ [CHR 0x27] @ ''#/components/responses/500'' @ [CHR 0x27] @ ''\<newline> */''
   \<and> endpoint minimal_config \<noteq>
       doc_upto_body minimal_config @ responses_section (declared_codes minimal_config)
   \<and> endpoint (minimal_config\<lparr>responses := Some [204]\<rparr>) = ''\<newline>/**\<newline> * @swagger\<newline> * /api/health:\<newline> *   get:\<newline> *     summary: Health\<newline> *     description: Health\<newline> *     tags: []\<newline> *     responses:\<newline> *       204:\<newline> *         $ref: '' @ [CHR 0x27] @ ''#/components/responses/204'' @ [CHR 0x27] @ ''\<newline> */''
   \<and> map_of StandardResponses 204 = None"
proof -
  have d: "declared_codes minimal_config = []"
    by (simp add: declared_codes_def minimal_config_def)
  have e: "emitted_codes minimal_config = [200, 400, 500]"
    by (simp add: emitted_codes_def minimal_config_def)
  have "endpoint minimal_config = doc_upto_body minimal_config @ responses_section [200, 400, 500]"
    by (simp add: endpoint_parts doc_upto_body_def e)
  moreover have "responses_section [200, 400, 500] \<noteq> responses_section []"
    by (simp add: responses_section_def response_entry_def)
  ultimately have "endpoint minimal_config \<noteq>
       doc_upto_body minimal_config @ responses_section (declared_codes minimal_config)"
    by (simp add: d)
  moreover have "endpoint (minimal_config\<lparr>responses := Some [204]\<rparr>) = ''\<newline>/**\<newline> * @swagger\<newline> * /api/health:\<newline> *   get:\<newline> *     summary: Health\<newline> *     description: Health\<newline> *     tags: []\<newline> *     responses:\<newline> *       204:\<newline> *         $ref: '' @ [CHR 0x27] @ ''#/components/responses/204'' @ [CHR 0x27] @ ''\<newline> */''"
    by (simp add: endpoint_def minimal_config_def string_of_nat_codes lower_method_names)
  moreover have "map_of StandardResponses 204 = None"
    by (simp add: StandardResponses_def)
  ultimately show ?thesis
    using d endpoint_minimal_text by simp
qed

text \<open>
  Claim C4, amended: when \<^verbatim>\<open>responses\<close> is declared, the helper writes one entry for each
  of its status codes, in order, and no other entry; when it is absent, the helper writes the
  entries of 200, 400 and 500. An entry is the status code with a reference to the response
  component of that code; the components of 200, 400 and 500 carry a description.
\<close>
theorem response_entries_for_declared_or_default_codes:
  "(\<forall>rs. responses config = Some rs \<longrightarrow>
       endpoint config = doc_upto_body config @ ''\<newline> *     responses:''
                         @ concat (map response_entry rs) @ ''\<newline> */'')
   \<and> (responses config = None \<longrightarrow>
       endpoint config = doc_upto_body config @ ''\<newline> *     responses:''
                         @ concat (map response_entry [200, 400, 500]) @ ''\<newline> */'')
   \<and> (\<forall>code. response_entry code =
          ''\<newline> *       '' @ string_of_nat code @ '':\<newline> *         $ref: ''
          @ [CHR 0x27] @ ''#/components/responses/'' @ string_of_nat code @ [CHR 0x27])
   \<and> map (map_of StandardResponses) [200, 400, 500] =
       [Some ''Success'', Some ''Bad Request'', Some ''Internal Server Error'']"
  by (simp add: endpoint_parts doc_upto_body_def emitted_codes_def responses_section_def
        response_entry_def StandardResponses_def)

theorem response_entries_for_declared_or_default_codes_witness:
  "responses profile_config = Some [200, 401]
   \<and> endpoint profile_config =
       doc_upto_body profile_config @ ''\<newline> *     responses:''
       @ concat (map response_entry [200, 401]) @ ''\<newline> */''
   \<and> responses minimal_config = None
   \<and> endpoint minimal_config =
       doc_upto_body minimal_config @ ''\<newline> *     responses:''
       @ concat (map response_entry [200, 400, 500]) @ ''\<newline> */''"
proof -
  have p: "responses profile_config = Some [200, 401]"
    by (simp add: profile_config_def)
  have m: "responses minimal_config = None"
    by (simp add: minimal_config_def)
  from response_entries_for_declared_or_default_codes [of profile_config]
       response_entries_for_declared_or_default_codes [of minimal_config] p m
  show ?thesis by blast
qed

text \<open>
  Claim C6. The helper writes the security requirement \<^verbatim>\<open>security: - bearerAuth: []\<close>
  directly after the tags line exactly when the \<^verbatim>\<open>auth\<close> flag is set; with the flag
  unset or absent the annotation is the same text without it, and nothing else in the
  annotation depends on the flag. For the operation \<^verbatim>\<open>GET /profile\<close> under the base
  path \<^verbatim>\<open>/users\<close> with the flag set and responses 200 and 401, the annotation is the
  entry \<^verbatim>\<open>/users/profile: get:\<close> with the security requirement and exactly the two
  response entries 200 and 401.
\<close>
theorem security_entry_iff_auth_flag:
  "(auth config = Some True \<longrightarrow>
       endpoint config = doc_upto_tags config @ security_entry @ doc_after_security config)
   \<and> (auth config \<noteq> Some True \<longrightarrow>
       endpoint config = doc_upto_tags config @ doc_after_security config)
   \<and> (\<forall>a. doc_upto_tags (config\<lparr>auth := a\<rparr>) = doc_upto_tags config
          \<and> doc_after_security (config\<lparr>auth := a\<rparr>) = doc_after_security config)
   \<and> security_entry = ''\<newline> *     security:\<newline> *       - bearerAuth: []''
   \<and> endpoint profile_config =
       doc_upto_tags profile_config @ security_entry @ responses_section [200, 401]
   \<and> endpoint profile_config = ''\<newline>/**\<newline> * @swagger\<newline> * /users/profile:\<newline> *   get:\<newline> *     summary: Get user profile\<newline> *     description: Get user profile\<newline> *     tags: [Users]\<newline> *     security:\<newline> *       - bearerAuth: []\<newline> *     responses:\<newline> *       200:\<newline> *         $ref: '' @ [CHR 0x27] @ ''#/components/responses/200'' @ [CHR 0x27] @ ''\<newline> *       401:\<newline> *         $ref: '' @ [CHR 0x27] @ ''#/components/responses/401'' @ [CHR 0x27] @ ''\<newline> */''"
proof -
  have a: "\<forall>a. doc_upto_tags (config\<lparr>auth := a\<rparr>) = doc_upto_tags config
          \<and> doc_after_security (config\<lparr>auth := a\<rparr>) = doc_after_security config"
    by (simp add: doc_upto_tags_def doc_after_security_def emitted_codes_def split: option.splits)
  have b: "endpoint config =
             doc_upto_tags config @ (if auth config = Some True then security_entry else [])
             @ doc_after_security config"
    by (simp add: endpoint_parts doc_after_security_def)
  have c: "security_entry = ''\<newline> *     security:\<newline> *       - bearerAuth: []''"
    by (simp add: security_entry_def)
  have d: "endpoint profile_config =
             doc_upto_tags profile_config @ security_entry @ responses_section [200, 401]"
    by (simp add: endpoint_parts request_body_entry_def emitted_codes_def profile_config_def)
  from a b c d endpoint_profile_text show ?thesis by simp
qed

theorem security_entry_iff_auth_flag_witness:
  "auth profile_config = Some True
   \<and> endpoint profile_config =
       doc_upto_tags profile_config @ security_entry @ doc_after_security profile_config
   \<and> auth (profile_config\<lparr>auth := Some False\<rparr>) \<noteq> Some True
   \<and> endpoint (profile_config\<lparr>auth := Some False\<rparr>) =
       doc_upto_tags profile_config @ doc_after_security profile_config
   \<and> auth (profile_config\<lparr>auth := None\<rparr>) \<noteq> Some True
   \<and> endpoint (profile_config\<lparr>auth := None\<rparr>) =
       doc_upto_tags profile_config @ doc_after_security profile_config"
proof -
  have p: "auth profile_config = Some True"
    by (simp add: profile_config_def)
  from security_entry_iff_auth_flag [of profile_config]
       security_entry_iff_auth_flag [of "profile_config\<lparr>auth := Some False\<rparr>"]
       security_entry_iff_auth_flag [of "profile_config\<lparr>auth := None\<rparr>"] p
  show ?thesis by simp
qed


end
